theory Spec2Isabelle
  imports Main "HOL-Library.List_Lexorder"
begin

section \<open>Python values used by the program\<close>

subsection \<open>Strings\<close>

text \<open>
  A Python \<open>str\<close> is a sequence of Unicode code points. A character is its code
  point \<open>ord(c)\<close>, an integer, so that the non-ASCII characters of the report (U+1F4C4, U+1F4CC, U+2514, U+2500)
  and the Unicode white space removed by \<open>str.strip()\<close> are single characters, as
  they are in Python. The order on \<open>str\<close> is the lexicographic order on code points,
  which is how Python compares strings.
\<close>

type_synonym str = "int list"

text \<open>The Python string whose characters are the given ASCII characters.\<close>

definition ascii :: "string \<Rightarrow> str" where
  "ascii s = map of_char s"

text \<open>\<open>sep.join(parts)\<close>.\<close>

fun str_join :: "str \<Rightarrow> str list \<Rightarrow> str" where
  "str_join sep [] = []"
| "str_join sep [x] = x"
| "str_join sep (x # y # ys) = x @ sep @ str_join sep (y # ys)"

text \<open>
  \<open>s.split(sep)\<close>: the pieces between the leftmost, non-overlapping occurrences of
  \<open>sep\<close>, scanning from the left. Python raises \<open>ValueError\<close> for an empty separator;
  the program only ever splits on the literals \<open>"::"\<close> and (inside pathlib)
  \<open>"/"\<close>, so that branch returns the string unsplit and is never taken.
\<close>

function str_split :: "str \<Rightarrow> str \<Rightarrow> str list" where
  "str_split sep s =
     (if s = [] \<or> sep = [] then [s]
      else if take (length sep) s = sep then [] # str_split sep (drop (length sep) s)
      else (case str_split sep (tl s) of
              [] \<Rightarrow> [[hd s]]
            | p # ps \<Rightarrow> (hd s # p) # ps))"
  by pat_completeness auto
termination
  by (relation "measure (\<lambda>(sep, s). length s)") auto

declare str_split.simps [simp del]


text \<open>\<open>s.startswith(p)\<close> and \<open>s.endswith(p)\<close>.\<close>

definition startswith :: "str \<Rightarrow> str \<Rightarrow> bool" where
  "startswith s p = (take (length p) s = p)"


text \<open>
  The characters for which \<open>str.isspace()\<close> holds; they are the ones that
  \<open>str.strip()\<close> without argument removes from both ends.
\<close>

definition is_space :: "int \<Rightarrow> bool" where
  "is_space c =
     ((9 \<le> c \<and> c \<le> 13) \<or> (28 \<le> c \<and> c \<le> 32) \<or> c = 133 \<or> c = 160 \<or> c = 5760
      \<or> (8192 \<le> c \<and> c \<le> 8202) \<or> c = 8232 \<or> c = 8233 \<or> c = 8239 \<or> c = 8287
      \<or> c = 12288)"

definition str_strip :: "str \<Rightarrow> str" where
  "str_strip s = rev (dropWhile is_space (rev (dropWhile is_space s)))"

text \<open>\<open>s.replace(old, new)\<close> for one-character \<open>old\<close> and \<open>new\<close>.\<close>

definition replace_char :: "int \<Rightarrow> int \<Rightarrow> str \<Rightarrow> str" where
  "replace_char old new s = map (\<lambda>c. if c = old then new else c) s"

subsection \<open>Dictionaries\<close>

text \<open>
  A Python \<open>dict\<close> keeps its keys in insertion order, and the report is rendered in
  that order, so a dictionary is an association list with distinct keys. \<open>dict_get\<close> is
  \<open>d.get(k, dflt)\<close>. \<open>dd_modify d k dflt f\<close> is the access \<open>d[k]\<close> of a
  \<open>defaultdict\<close> followed by an in-place change \<open>f\<close> of the value found: a missing
  key is first inserted, at the end, with the default value. \<open>dict_set\<close> is
  \<open>d[k] = v\<close>: an existing key keeps its position.
\<close>

definition dict_get :: "('k \<times> 'v) list \<Rightarrow> 'k \<Rightarrow> 'v \<Rightarrow> 'v" where
  "dict_get d k dflt = (case map_of d k of None \<Rightarrow> dflt | Some v \<Rightarrow> v)"

fun dd_modify :: "('k \<times> 'v) list \<Rightarrow> 'k \<Rightarrow> 'v \<Rightarrow> ('v \<Rightarrow> 'v) \<Rightarrow> ('k \<times> 'v) list" where
  "dd_modify [] k dflt f = [(k, f dflt)]"
| "dd_modify ((k', v) # d) k dflt f =
     (if k' = k then (k', f v) # d else (k', v) # dd_modify d k dflt f)"

definition dict_set :: "('k \<times> 'v) list \<Rightarrow> 'k \<Rightarrow> 'v \<Rightarrow> ('k \<times> 'v) list" where
  "dict_set d k v = dd_modify d k v (\<lambda>_. v)"

subsection \<open>Errors\<close>

text \<open>
  The exceptions the program can raise, under the names the specification gives them:
  \<open>ParseError\<close> is the \<open>SyntaxError\<close> of \<open>ast.parse\<close>, \<open>PathError\<close> the
  \<open>ValueError\<close> of \<open>Path.relative_to\<close>, \<open>ReadError\<close> whatever \<open>open\<close> and
  \<open>read\<close> raise on a file that cannot be read as UTF-8 text, \<open>EncodeError\<close> the
  \<open>UnicodeEncodeError\<close> of \<open>str.encode\<close>.
\<close>

datatype error = ParseError | PathError | ReadError | EncodeError

subsection \<open>Encoding\<close>

text \<open>
  \<open>s.encode()\<close>: the UTF-8 bytes of the string. The code points of a Python string lie
  between 0 and U+10FFFF. A surrogate, U+D800 to U+DFFF, has no UTF-8 encoding: Python
  holds the bytes of a file name that is not valid UTF-8 as lone surrogates, and the strict
  encoder raises \<open>UnicodeEncodeError\<close> on them.
\<close>

definition is_surrogate :: "int \<Rightarrow> bool" where
  "is_surrogate c = (55296 \<le> c \<and> c \<le> 57343)"

definition utf8_char :: "int \<Rightarrow> int list option" where
  "utf8_char c =
     (if c < 128 then Some [c]
      else if c < 2048 then Some [192 + c div 64, 128 + c mod 64]
      else if is_surrogate c then None
      else if c < 65536 then Some [224 + c div 4096, 128 + (c div 64) mod 64, 128 + c mod 64]
      else Some [240 + c div 262144, 128 + (c div 4096) mod 64, 128 + (c div 64) mod 64,
                 128 + c mod 64])"

fun str_encode :: "str \<Rightarrow> error + int list" where
  "str_encode [] = Inr []"
| "str_encode (c # cs) =
     (case utf8_char c of
        None \<Rightarrow> Inl EncodeError
      | Some bs \<Rightarrow> (case str_encode cs of Inl e \<Rightarrow> Inl e | Inr rest \<Rightarrow> Inr (bs @ rest)))"

text \<open>A string that can be encoded: it holds no surrogate.\<close>

definition encodable :: "str \<Rightarrow> bool" where
  "encodable s = list_all (\<lambda>c. \<not> is_surrogate c) s"

subsection \<open>Paths\<close>

text \<open>
  A \<open>pathlib\<close> path of the POSIX flavour: its root (\<open>""\<close>, \<open>"/"\<close> or \<open>"//"\<close>) and
  the components after it.
\<close>

record path =
  root :: str
  tail :: "str list"

text \<open>
  \<open>Path(s)\<close>: the root is \<open>"//"\<close> for exactly two leading slashes, \<open>"/"\<close> for any
  other number of them; empty components and \<open>"."\<close> are dropped.
\<close>

definition Path :: "str \<Rightarrow> path" where
  "Path s =
     (let n = length (takeWhile (\<lambda>c. c = 47) s);
          rel = dropWhile (\<lambda>c. c = 47) s
      in \<lparr> root = (if n = 0 then [] else if n = 2 then ascii ''//'' else ascii ''/''),
           tail = filter (\<lambda>x. x \<noteq> [] \<and> x \<noteq> ascii ''.'') (str_split (ascii ''/'') rel) \<rparr>)"

text \<open>\<open>str(p)\<close>, \<open>p.parts\<close>, \<open>p.name\<close>, \<open>p.parent\<close>, \<open>p.is_absolute()\<close>.\<close>

definition path_str :: "path \<Rightarrow> str" where
  "path_str p =
     (let s = root p @ str_join (ascii ''/'') (tail p) in if s = [] then ascii ''.'' else s)"

definition path_parts :: "path \<Rightarrow> str list" where
  "path_parts p = (if root p = [] then tail p else root p # tail p)"

definition path_name :: "path \<Rightarrow> str" where
  "path_name p = (if tail p = [] then [] else last (tail p))"

definition path_parent :: "path \<Rightarrow> path" where
  "path_parent p = p \<lparr> tail := butlast (tail p) \<rparr>"

definition is_absolute :: "path \<Rightarrow> bool" where
  "is_absolute p = (root p \<noteq> [])"

text \<open>
  \<open>p.is_relative_to(other)\<close>: \<open>other\<close> (root and components) is a prefix of
  \<open>p\<close>. \<open>p.relative_to(other)\<close>: the components of \<open>p\<close> after those of
  \<open>other\<close>, as a relative path; \<open>ValueError\<close> when \<open>p\<close> is not relative to
  \<open>other\<close>.
\<close>

definition is_relative_to :: "path \<Rightarrow> path \<Rightarrow> bool" where
  "is_relative_to p other =
     (root p = root other \<and> take (length (tail other)) (tail p) = tail other)"

definition relative_to :: "path \<Rightarrow> path \<Rightarrow> error + path" where
  "relative_to p other =
     (if is_relative_to p other
      then Inr \<lparr> root = [], tail = drop (length (tail other)) (tail p) \<rparr>
      else Inl PathError)"

text \<open>The child of \<open>p\<close> reached through the components \<open>rel\<close>.\<close>

definition child :: "path \<Rightarrow> str list \<Rightarrow> path" where
  "child p rel = p \<lparr> tail := tail p @ rel \<rparr>"

section \<open>Key scheme\<close>

text \<open>
  \<open>make_unique_key\<close> (lines 22-32). \<open>resolve\<close> is \<open>Path.resolve\<close>, which reads the
  file system; \<open>parent_name\<close> is \<open>None\<close> by default, and \<open>if parent_name\<close> also
  takes the empty string for absent. Line 31 encodes the raw key and computes its MD5
  digest: the digest is not used, but the encoding raises on a raw key that cannot be
  encoded, and then no key is returned.
\<close>

definition make_unique_key :: "(path \<Rightarrow> path) \<Rightarrow> path \<Rightarrow> str \<Rightarrow> str \<Rightarrow> str option \<Rightarrow> error + str" where
  "make_unique_key resolve file_path scope_type scope_name parent_name =
     (let full_path = path_str (resolve file_path);
          parts0 = [full_path, scope_type, scope_name];
          parts1 = (case parent_name of
                      None \<Rightarrow> parts0
                    | Some p \<Rightarrow> if p \<noteq> [] then parts0 @ [p] else parts0);
          raw_key = str_join (ascii ''::'') parts1
      in case str_encode raw_key of
           Inl e \<Rightarrow> Inl e
         | Inr encoded \<Rightarrow> Inr (ascii ''memo_'' @ raw_key))"

text \<open>
  The decoding that \<open>format_memo_data\<close> applies to each key (lines 80-89): the prefix
  test, the split on \<open>"::"\<close>, the test for at least three segments, and the unpacking
  into path, scope, name and the optional parent, which is present only when there are
  exactly four segments. \<open>None\<close> is the \<open>continue\<close> of the loop.
\<close>

definition decode_key :: "str \<Rightarrow> (str \<times> str \<times> str \<times> str option) option" where
  "decode_key key =
     (if \<not> startswith key (ascii ''memo_'') then None
      else let raw = drop (length (ascii ''memo_'')) key;
               ps = str_split (ascii ''::'') raw
           in if length ps < 3 then None
              else Some (ps ! 0, ps ! 1, ps ! 2,
                         if length ps = 4 then Some (ps ! 3) else None))"






section \<open>Report formatter\<close>

text \<open>
  The grouping tree of \<open>format_memo_data\<close> (lines 68-74): a \<open>defaultdict\<close> from the
  path to a dictionary with the three keys \<open>"__file_memo__"\<close>, \<open>"__functions__"\<close>
  and \<open>"__classes__"\<close>; the last is a \<open>defaultdict(dict)\<close> from the class name to a
  dictionary that holds the class memo under the key \<open>"__memo__"\<close> and each method memo
  under the method's name.
\<close>

record content =
  file_memo :: str
  functions_memo :: "(str \<times> str) list"
  classes_memo :: "(str \<times> (str \<times> str) list) list"

definition default_content :: content where
  "default_content = \<lparr> file_memo = [], functions_memo = [], classes_memo = [] \<rparr>"

text \<open>
  The body of the first loop (lines 77-98), for one item \<open>(key, memo)\<close> of the annotation
  map. Each \<open>continue\<close> returns the tree unchanged, and so does a scope that no branch
  takes.
\<close>

definition group_entry :: "(str \<times> content) list \<Rightarrow> str \<times> str \<Rightarrow> (str \<times> content) list" where
  "group_entry tree km =
     (let key = fst km; memo = snd km
      in if str_strip memo = [] then tree
         else case decode_key key of
                None \<Rightarrow> tree
              | Some (path, scope, nm, parent) \<Rightarrow>
                  if scope = ascii ''file'' then
                    dd_modify tree path default_content (\<lambda>c. c \<lparr> file_memo := memo \<rparr>)
                  else if scope = ascii ''function'' then
                    dd_modify tree path default_content
                      (\<lambda>c. c \<lparr> functions_memo := dict_set (functions_memo c) nm memo \<rparr>)
                  else if scope = ascii ''class'' then
                    dd_modify tree path default_content
                      (\<lambda>c. c \<lparr> classes_memo :=
                              dd_modify (classes_memo c) nm []
                                (\<lambda>d. dict_set d (ascii ''__memo__'') memo) \<rparr>)
                  else if scope = ascii ''method'' \<and> parent \<noteq> None \<and> parent \<noteq> Some [] then
                    dd_modify tree path default_content
                      (\<lambda>c. c \<lparr> classes_memo :=
                              dd_modify (classes_memo c) (the parent) []
                                (\<lambda>d. dict_set d nm memo) \<rparr>)
                  else tree)"

text \<open>The lines of one class (lines 109-112) and of one file (lines 103-113).\<close>

definition class_lines :: "str \<times> (str \<times> str) list \<Rightarrow> str list" where
  "class_lines cc =
     (let cls = fst cc; cls_content = snd cc
      in (ascii ''  [CLASS] '' @ cls @ ascii '' : '' @ dict_get cls_content (ascii ''__memo__'') [])
         # map (\<lambda>mm. ascii ''    '' @ [9492, 9472, 9472] @ ascii '' def '' @ fst mm
                       @ ascii ''() : '' @ snd mm)
             (filter (\<lambda>mm. fst mm \<noteq> ascii ''__memo__'') cls_content))"

definition file_lines :: "str \<Rightarrow> content \<Rightarrow> str list" where
  "file_lines rel_path c =
     [[128196] @ ascii '' '' @ rel_path]
     @ (if file_memo c \<noteq> [] then [ascii ''  '' @ [128204] @ ascii '' '' @ file_memo c] else [])
     @ map (\<lambda>fm. ascii ''  [FUNC] '' @ fst fm @ ascii ''() : '' @ snd fm) (functions_memo c)
     @ concat (map class_lines (classes_memo c))
     @ [[]]"

text \<open>
  The second loop (lines 100-113) over the sorted items, with the list \<open>lines\<close> built so
  far. \<open>cwd\<close> is the path that \<open>Path.cwd()\<close> returns. The \<open>ValueError\<close> of
  \<open>relative_to\<close> is not caught, so it ends the loop and the function.
\<close>

fun render :: "path \<Rightarrow> str list \<Rightarrow> (str \<times> content) list \<Rightarrow> error + str list" where
  "render cwd lines [] = Inr lines"
| "render cwd lines ((path, c) # rest) =
     (case relative_to (Path path) cwd of
        Inl e \<Rightarrow> Inl e
      | Inr rel_path \<Rightarrow> render cwd (lines @ file_lines (path_str rel_path) c) rest)"

text \<open>
  \<open>format_memo_data\<close> (lines 66-115). \<open>memo_data\<close> is the dictionary as the list of its
  items in insertion order. The keys of the tree are distinct, so \<open>sorted(tree.items())\<close>
  orders the items by their path alone.
\<close>

definition format_memo_data :: "path \<Rightarrow> (str \<times> str) list \<Rightarrow> error + str" where
  "format_memo_data cwd memo_data =
     (let tree = foldl group_entry [] memo_data
      in case render cwd [] (sort_key fst tree) of
           Inl e \<Rightarrow> Inl e
         | Inr lines \<Rightarrow> Inr (str_join [10] lines))"

text \<open>An annotation text that is empty or consists of white space only.\<close>

definition blank :: "str \<Rightarrow> bool" where
  "blank s = list_all is_space s"

text \<open>
  An entry that the first loop files into the tree: its text is not blank, its key decodes,
  and its scope is one of the four kinds, a method needing its parent.
\<close>

definition survives :: "str \<Rightarrow> str \<Rightarrow> bool" where
  "survives key memo =
     (\<not> blank memo \<and>
      (case decode_key key of
         None \<Rightarrow> False
       | Some (path, scope, nm, parent) \<Rightarrow>
           scope = ascii ''file'' \<or> scope = ascii ''function'' \<or> scope = ascii ''class''
           \<or> (scope = ascii ''method'' \<and> parent \<noteq> None \<and> parent \<noteq> Some [])))"

text \<open>The path segment of a key that decodes.\<close>

definition key_path :: "str \<Rightarrow> str" where
  "key_path key = (case decode_key key of None \<Rightarrow> [] | Some (path, scope, nm, parent) \<Rightarrow> path)"

text \<open>Scenario B of the specification: the annotation map.\<close>

definition scenario_B :: "(str \<times> str) list" where
  "scenario_B =
     [(ascii ''memo_/proj/pkg/a.py::method::m::Bar'', ascii ''does x''),
      (ascii ''memo_/proj/pkg/a.py::file::a.py'', ascii ''top memo'')]"

section \<open>UI keys\<close>

text \<open>
  The state that \<open>make_safe_key\<close> reads and writes: the module-level set \<open>used_keys\<close>
  (line 9), and the random source, given as the values that the calls of
  \<open>uuid4().hex[:8]\<close> still to come will return, in order.
\<close>

record key_state =
  used_keys :: "str set"
  uuid_draws :: "str list"

text \<open>
  The loop of lines 16-17, from the current candidate \<open>key\<close>. Each iteration takes one
  draw. The loop runs for as long as the candidate is in use, so it need not end; \<open>None\<close>
  says that it is still running when the draws given are used up.
\<close>

fun pick_key :: "str set \<Rightarrow> str \<Rightarrow> str \<Rightarrow> str list \<Rightarrow> (str \<times> str list) option" where
  "pick_key used base key [] = (if key \<in> used then None else Some (key, []))"
| "pick_key used base key (u # draws) =
     (if key \<in> used then pick_key used base (base @ ascii ''_'' @ u) draws
      else Some (key, u # draws))"

text \<open>\<open>make_safe_key\<close> (lines 12-19): the key returned and the state after the call.\<close>

definition make_safe_key :: "key_state \<Rightarrow> str list \<Rightarrow> (str \<times> key_state) option" where
  "make_safe_key st args =
     (let base = ascii ''memo_''
                 @ str_join (ascii ''_'') (map (\<lambda>a. replace_char 32 95 (replace_char 47 95 a)) args)
      in case pick_key (used_keys st) base base (uuid_draws st) of
           None \<Rightarrow> None
         | Some (key, draws) \<Rightarrow>
             Some (key, \<lparr> used_keys = insert key (used_keys st), uuid_draws = draws \<rparr>))"

text \<open>
  A sequence of calls within one process: the keys returned, in order, and the last state.
\<close>

fun make_safe_keys :: "key_state \<Rightarrow> str list list \<Rightarrow> (str list \<times> key_state) option" where
  "make_safe_keys st [] = Some ([], st)"
| "make_safe_keys st (args # rest) =
     (case make_safe_key st args of
        None \<Rightarrow> None
      | Some (key, st') \<Rightarrow>
          (case make_safe_keys st' rest of
             None \<Rightarrow> None
           | Some (keys, st'') \<Rightarrow> Some (key # keys, st'')))"

section \<open>Structure extractor\<close>

text \<open>
  The part of a Python syntax tree that the extractor looks at: a statement is a plain
  function definition, an \<open>async def\<close>, a class definition, or any other statement; each
  carries the statements nested in it. A module is the list of its top-level statements,
  which is what \<open>ast.iter_child_nodes\<close> yields for it.
\<close>

datatype stmt =
    FunctionDef str "stmt list"
  | AsyncFunctionDef str "stmt list"
  | ClassDef str "stmt list"
  | Other "stmt list"

text \<open>
  The dictionary that \<open>extract_structure\<close> returns: \<open>classes\<close> is its value at
  \<open>"classes"\<close>, \<open>funcs\<close> its value at \<open>"functions"\<close>.
\<close>

record "structure" =
  classes :: "(str \<times> str list) list"
  funcs :: "str list"

text \<open>
  The body of the inner loop (lines 45-47) for one statement of the body of the class
  \<open>cname\<close>, and the body of the outer loop (lines 43-49) for one top-level statement.
  \<open>classes\<close> is a \<open>defaultdict(list)\<close>: a class gets its key at its first method.
\<close>

definition visit_member :: "str \<Rightarrow> (str \<times> str list) list \<Rightarrow> stmt \<Rightarrow> (str \<times> str list) list" where
  "visit_member cname cls sub =
     (case sub of
        FunctionDef mname body \<Rightarrow> dd_modify cls cname [] (\<lambda>ms. ms @ [mname])
      | _ \<Rightarrow> cls)"

definition visit_node :: "structure \<Rightarrow> stmt \<Rightarrow> structure" where
  "visit_node st node =
     (case node of
        ClassDef cname body \<Rightarrow> st \<lparr> classes := foldl (visit_member cname) (classes st) body \<rparr>
      | FunctionDef fname body \<Rightarrow> st \<lparr> funcs := funcs st @ [fname] \<rparr>
      | _ \<Rightarrow> st)"

text \<open>Lines 40-51: the structure of a parsed module.\<close>

definition structure_of :: "stmt list \<Rightarrow> structure" where
  "structure_of tree = foldl visit_node \<lparr> classes = [], funcs = [] \<rparr> tree"

text \<open>
  What the program takes from its surroundings: \<open>rglob_py p\<close> is the enumeration
  \<open>p.rglob("*.py")\<close>, each match given by its components below \<open>p\<close>, in the order of the
  enumeration; \<open>read_text\<close> is \<open>open(file_path, "r", encoding="utf-8")\<close> followed by
  \<open>read()\<close>, with \<open>None\<close> when they raise; \<open>ast_parse\<close> is \<open>ast.parse\<close>, with
  \<open>None\<close> when the text is not syntactically valid.
\<close>

record env =
  rglob_py :: "path \<Rightarrow> str list list"
  read_text :: "path \<Rightarrow> str option"
  ast_parse :: "str \<Rightarrow> stmt list option"

text \<open>\<open>extract_structure\<close> (lines 35-51).\<close>

definition extract_structure :: "env \<Rightarrow> path \<Rightarrow> error + structure" where
  "extract_structure env file_path =
     (case read_text env file_path of
        None \<Rightarrow> Inl ReadError
      | Some src \<Rightarrow>
          (case ast_parse env src of
             None \<Rightarrow> Inl ParseError
           | Some tree \<Rightarrow> Inr (structure_of tree)))"

section \<open>Project scanner\<close>

text \<open>The test of line 58: some part of the path is one of the excluded names.\<close>

definition excluded :: "str list \<Rightarrow> path \<Rightarrow> bool" where
  "excluded exclude_folders py_file =
     list_ex (\<lambda>part. List.member exclude_folders part) (path_parts py_file)"

text \<open>
  The catalog: a \<open>defaultdict(dict)\<close> from the folder to a dictionary from the file name
  to the pair of the structure and the path.
\<close>

type_synonym catalog = "(str \<times> (str \<times> (structure \<times> path)) list) list"

text \<open>
  The body of the loop (lines 58-62) for one path of the enumeration. No exception is
  caught, so the first one ends the scan.
\<close>

definition scan_file :: "env \<Rightarrow> path \<Rightarrow> str list \<Rightarrow> catalog \<Rightarrow> path \<Rightarrow> error + catalog" where
  "scan_file env project exclude_folders structure py_file =
     (if excluded exclude_folders py_file then Inr structure
      else case relative_to py_file project of
             Inl e \<Rightarrow> Inl e
           | Inr relative_path \<Rightarrow>
               (let folder = path_str (path_parent relative_path)
                in case extract_structure env py_file of
                     Inl e \<Rightarrow> Inl e
                   | Inr s \<Rightarrow>
                       Inr (dd_modify structure folder []
                              (\<lambda>files. dict_set files (path_name py_file) (s, py_file)))))"

fun scan :: "env \<Rightarrow> path \<Rightarrow> str list \<Rightarrow> catalog \<Rightarrow> path list \<Rightarrow> error + catalog" where
  "scan env project exclude_folders structure [] = Inr structure"
| "scan env project exclude_folders structure (py_file # rest) =
     (case scan_file env project exclude_folders structure py_file of
        Inl e \<Rightarrow> Inl e
      | Inr structure' \<Rightarrow> scan env project exclude_folders structure' rest)"

text \<open>
  \<open>collect_project_structure\<close> (lines 54-63). \<open>project_path\<close> is the string that the
  caller passes; the enumeration yields each match as the child of \<open>Path(project_path)\<close>
  with the components of the match.
\<close>

definition py_files :: "env \<Rightarrow> str \<Rightarrow> path list" where
  "py_files env project_path =
     map (child (Path project_path)) (rglob_py env (Path project_path))"

definition collect_project_structure :: "env \<Rightarrow> str \<Rightarrow> str list \<Rightarrow> error + catalog" where
  "collect_project_structure env project_path exclude_folders =
     scan env (Path project_path) exclude_folders [] (py_files env project_path)"

text \<open>The entries of a catalog: folder, file name, structure and path.\<close>

definition entries :: "catalog \<Rightarrow> (str \<times> str \<times> structure \<times> path) list" where
  "entries cat = concat (map (\<lambda>ff. map (\<lambda>e. (fst ff, fst e, fst (snd e), snd (snd e))) (snd ff)) cat)"

text \<open>The surroundings in which the files with an excluded part are not enumerated.\<close>

definition without_excluded :: "str list \<Rightarrow> env \<Rightarrow> env" where
  "without_excluded exclude_folders env =
     env \<lparr> rglob_py := \<lambda>p. filter (\<lambda>rel. \<not> excluded exclude_folders (child p rel)) (rglob_py env p) \<rparr>"

text \<open>
  The outline of a module in the words of the specification: the names of the function
  definitions that are direct children of a body, in source order, and the methods of the
  top-level classes of a given name.
\<close>

definition direct_functions :: "stmt list \<Rightarrow> str list" where
  "direct_functions body =
     concat (map (\<lambda>node. case node of FunctionDef fname b \<Rightarrow> [fname] | _ \<Rightarrow> []) body)"

definition methods_of :: "stmt list \<Rightarrow> str \<Rightarrow> str list" where
  "methods_of tree c =
     concat (map (\<lambda>node. case node of
                            ClassDef cname body \<Rightarrow> if cname = c then direct_functions body else []
                          | _ \<Rightarrow> []) tree)"

text \<open>
  A module cut below the two levels of the outline: the bodies of the top-level
  definitions other than classes, and everything below the direct children of a class
  body, are emptied.
\<close>

fun shallow :: "stmt \<Rightarrow> stmt" where
  "shallow (FunctionDef n body) = FunctionDef n []"
| "shallow (AsyncFunctionDef n body) = AsyncFunctionDef n []"
| "shallow (ClassDef n body) = ClassDef n []"
| "shallow (Other body) = Other []"

definition two_levels :: "stmt list \<Rightarrow> stmt list" where
  "two_levels tree =
     map (\<lambda>node. case node of ClassDef n body \<Rightarrow> ClassDef n (map shallow body) | _ \<Rightarrow> shallow node) tree"

text \<open>A module without the \<open>async def\<close> statements of its top level and of its class bodies.\<close>

fun is_async :: "stmt \<Rightarrow> bool" where
  "is_async (AsyncFunctionDef n body) = True"
| "is_async node = False"

definition without_async :: "stmt list \<Rightarrow> stmt list" where
  "without_async tree =
     map (\<lambda>node. case node of
                    ClassDef n body \<Rightarrow> ClassDef n (filter (\<lambda>sub. \<not> is_async sub) body)
                  | _ \<Rightarrow> node)
         (filter (\<lambda>node. \<not> is_async node) tree)"

text \<open>
  Scenario A of the specification: the file \<open>pkg/a.py\<close> with \<open>def foo(): pass\<close> and the
  class \<open>Bar\<close> with the method \<open>m\<close>; its syntax tree; and surroundings in which the
  project holds that file, and the file \<open>tests/broken.py\<close>, whose text does not parse.
\<close>

definition scenario_A_text :: str where
  "scenario_A_text = ascii ''def foo(): pass'' @ [10] @ ascii ''class Bar:'' @ [10]
                     @ ascii '' def m(self): pass''"

definition scenario_A_tree :: "stmt list" where
  "scenario_A_tree =
     [FunctionDef (ascii ''foo'') [Other []],
      ClassDef (ascii ''Bar'') [FunctionDef (ascii ''m'') [Other []]]]"

definition scenario_env :: env where
  "scenario_env =
     \<lparr> rglob_py = (\<lambda>p. [[ascii ''pkg'', ascii ''a.py''], [ascii ''tests'', ascii ''broken.py'']]),
       read_text = (\<lambda>p. if path_name p = ascii ''a.py'' then Some scenario_A_text
                         else Some (ascii ''def ('')),
       ast_parse = (\<lambda>src. if src = scenario_A_text then Some scenario_A_tree else None) \<rparr>"

text \<open>
  A \<open>classes\<close> dictionary is well keyed: its keys are distinct, and a class has a key
  exactly when some method is recorded for it.
\<close>

definition keyed :: "(str \<times> str list) list \<Rightarrow> bool" where
  "keyed cls = (distinct (map fst cls) \<and> (\<forall>c. c \<in> fst ` set cls \<longleftrightarrow> dict_get cls c [] \<noteq> []))"

text \<open>
  An entry of the catalog describes the enumerated file with the components \<open>rel\<close> below
  the project path: its path is the project path extended by \<open>rel\<close>, its folder the string
  of the parent of the relative path, its file name the last component, and its structure
  the result of \<open>extract_structure\<close> on that path.
\<close>

definition describes :: "env \<Rightarrow> path \<Rightarrow> str list \<Rightarrow> str \<times> str \<times> structure \<times> path \<Rightarrow> bool" where
  "describes env project rel entry =
     (case entry of (folder, fname, s, p) \<Rightarrow>
        p = child project rel
        \<and> folder = path_str (path_parent \<lparr> root = [], tail = rel \<rparr>)
        \<and> fname = path_name p
        \<and> extract_structure env p = Inr s)"

text \<open>
  A process at its start, the registry empty, with one draw of the random source; and a
  module with an \<open>async def\<close> at its top level and another in a class body.
\<close>

definition start_state :: key_state where
  "start_state = \<lparr> used_keys = {}, uuid_draws = [ascii ''0a1b2c3d''] \<rparr>"

definition async_tree :: "stmt list" where
  "async_tree =
     [AsyncFunctionDef (ascii ''fetch'') [Other []],
      FunctionDef (ascii ''foo'') [Other []],
      ClassDef (ascii ''Bar'') [AsyncFunctionDef (ascii ''run'') [Other []]]]"

section \<open>Properties of the key scheme\<close>

subsection \<open>Splitting on the delimiter\<close>












subsection \<open>Encoding the raw key\<close>


lemma str_encode_surrogate: "\<not> encodable s \<Longrightarrow> str_encode s = Inl EncodeError"
proof (induction s)
  case Nil
  then show ?case by (simp add: encodable_def)
next
  case (Cons c cs)
  show ?case
  proof (cases "utf8_char c")
    case None
    then show ?thesis by simp
  next
    case (Some bs)
    then have "\<not> is_surrogate c"
      by (auto simp: utf8_char_def is_surrogate_def split: if_splits)
    with Cons.prems have "\<not> encodable cs" by (simp add: encodable_def)
    from Cons.IH [OF this] Some show ?thesis by simp
  qed
qed

lemma encodable_append: "encodable (a @ b) \<longleftrightarrow> encodable a \<and> encodable b"
  by (simp add: encodable_def)


text \<open>
  A resolved path that holds a surrogate, as the path of a file whose name is not valid
  UTF-8 does: \<open>make_unique_key\<close> raises, and there is no key.
\<close>

lemma make_unique_key_raises:
  "\<not> encodable (path_str (resolve file_path)) \<Longrightarrow>
   make_unique_key resolve file_path kind nm parent_name = Inl EncodeError"
proof -
  assume bad: "\<not> encodable (path_str (resolve file_path))"
  have "\<not> encodable (str_join (ascii ''::'') (path_str (resolve file_path) # kind # nm # more))"
    for more
    using bad by (cases more) (simp_all add: encodable_append)
  from this [of "[]"] this [of "[the parent_name]"] show ?thesis
    by (auto simp: make_unique_key_def Let_def dest: str_encode_surrogate split: option.splits)
qed




section \<open>Properties of the report formatter\<close>

text \<open>
  Claim C2, as amended. Scenario B: for the annotation map with the key
  \<open>memo_/proj/pkg/a.py::method::m::Bar\<close> and text \<open>does x\<close> and the key
  \<open>memo_/proj/pkg/a.py::file::a.py\<close> and text \<open>top memo\<close>, in either insertion order,
  and the working directory \<open>/proj\<close>, \<open>format_memo_data\<close> returns the four lines of the
  block followed by the empty separator line, joined by newlines, where the class line is
  \<open>"  [CLASS] Bar : "\<close>: the class has no memo, and the line ends with the space that
  follows the colon in the format string.
\<close>

theorem scenario_B_report:
  "format_memo_data (Path (ascii ''/proj'')) scenario_B =
     Inr (str_join [10]
           [[128196] @ ascii '' pkg/a.py'',
            ascii ''  '' @ [128204] @ ascii '' top memo'',
            ascii ''  [CLASS] Bar : '',
            ascii ''    '' @ [9492, 9472, 9472] @ ascii '' def m() : does x'',
            []])
   \<and> format_memo_data (Path (ascii ''/proj'')) (rev scenario_B) =
       format_memo_data (Path (ascii ''/proj'')) scenario_B"
  by code_simp

text \<open>
  Claim C2 as the specification states it fails: the report is not the block whose class
  line is \<open>"  [CLASS] Bar :"\<close>, without the space after the colon.
\<close>

theorem scenario_B_report_counterexample:
  "format_memo_data (Path (ascii ''/proj'')) scenario_B \<noteq>
     Inr (str_join [10]
           [[128196] @ ascii '' pkg/a.py'',
            ascii ''  '' @ [128204] @ ascii '' top memo'',
            ascii ''  [CLASS] Bar :'',
            ascii ''    '' @ [9492, 9472, 9472] @ ascii '' def m() : does x'',
            []])"
  by code_simp

subsection \<open>Blank texts\<close>

lemma strip_empty_iff_blank: "str_strip s = [] \<longleftrightarrow> blank s"
proof
  assume "blank s"
  then show "str_strip s = []"
    by (auto simp: blank_def str_strip_def list_all_iff dest: set_dropWhileD)
next
  assume e: "str_strip s = []"
  have "dropWhile is_space s = []"
  proof (rule ccontr)
    assume ne: "dropWhile is_space s \<noteq> []"
    then have "\<not> is_space (hd (dropWhile is_space s))"
      by (rule hd_dropWhile)
    moreover from e have "\<forall>x \<in> set (dropWhile is_space s). is_space x"
      by (simp add: str_strip_def dropWhile_eq_Nil_conv)
    ultimately show False using ne by (metis hd_in_set)
  qed
  then show "blank s"
    by (simp add: blank_def list_all_iff dropWhile_eq_Nil_conv)
qed

subsection \<open>Entries that the first loop skips\<close>

lemma decode_key_None:
  "\<not> startswith key (ascii ''memo_'')
   \<or> length (str_split (ascii ''::'') (drop (length (ascii ''memo_'')) key)) < 3
   \<Longrightarrow> decode_key key = None"
  by (auto simp: decode_key_def Let_def)

lemma group_entry_skip:
  assumes "blank memo \<or> \<not> startswith key (ascii ''memo_'')
           \<or> length (str_split (ascii ''::'') (drop (length (ascii ''memo_'')) key)) < 3"
  shows "group_entry tree (key, memo) = tree"
proof (cases "blank memo")
  case True
  then show ?thesis by (simp add: group_entry_def strip_empty_iff_blank)
next
  case False
  with assms have "decode_key key = None" by (simp add: decode_key_None)
  then show ?thesis by (simp add: group_entry_def)
qed

text \<open>
  Claim C3. A pair of the annotation map whose text is empty or white space only, or whose
  key does not start with \<open>memo_\<close>, or whose key, the prefix stripped, splits on \<open>::\<close>
  into fewer than three segments, is skipped: the result of \<open>format_memo_data\<close>, report
  or error, is the one for the map without that pair, so the pair adds no line and raises
  no error.
\<close>

theorem filtered_pair_contributes_nothing:
  assumes "blank memo \<or> \<not> startswith key (ascii ''memo_'')
           \<or> length (str_split (ascii ''::'') (drop (length (ascii ''memo_'')) key)) < 3"
  shows "format_memo_data cwd (before @ (key, memo) # after) = format_memo_data cwd (before @ after)"
  using group_entry_skip [OF assms] by (simp add: format_memo_data_def)

text \<open>
  One pair of each kind added to scenario B (a function memo of white space, a key with
  another prefix, and the two-segment key of scenario C), each leaving the report as it is.
\<close>

theorem filtered_pair_contributes_nothing_witness:
  "blank [32, 9, 32]
   \<and> format_memo_data (Path (ascii ''/proj''))
         (scenario_B @ [(ascii ''memo_/proj/pkg/a.py::function::foo'', [32, 9, 32])])
       = format_memo_data (Path (ascii ''/proj'')) (scenario_B @ [])
   \<and> \<not> startswith (ascii ''note_/proj/pkg/a.py::function::foo'') (ascii ''memo_'')
   \<and> format_memo_data (Path (ascii ''/proj''))
         (scenario_B @ [(ascii ''note_/proj/pkg/a.py::function::foo'', ascii ''x'')])
       = format_memo_data (Path (ascii ''/proj'')) (scenario_B @ [])
   \<and> length (str_split (ascii ''::'')
         (drop (length (ascii ''memo_'')) (ascii ''memo_/proj/pkg/a.py::function''))) < 3
   \<and> format_memo_data (Path (ascii ''/proj''))
         (scenario_B @ [(ascii ''memo_/proj/pkg/a.py::function'', ascii ''x'')])
       = format_memo_data (Path (ascii ''/proj'')) (scenario_B @ [])"
proof -
  have h1: "blank [32, 9, 32]"
    by code_simp
  have h2: "\<not> startswith (ascii ''note_/proj/pkg/a.py::function::foo'') (ascii ''memo_'')"
    by code_simp
  have h3: "length (str_split (ascii ''::'')
         (drop (length (ascii ''memo_'')) (ascii ''memo_/proj/pkg/a.py::function''))) < 3"
    by code_simp
  show ?thesis
    using h1 h2 h3
      filtered_pair_contributes_nothing [of "[32, 9, 32]"
        "ascii ''memo_/proj/pkg/a.py::function::foo''" "Path (ascii ''/proj'')" scenario_B "[]"]
      filtered_pair_contributes_nothing [of "ascii ''x''"
        "ascii ''note_/proj/pkg/a.py::function::foo''" "Path (ascii ''/proj'')" scenario_B "[]"]
      filtered_pair_contributes_nothing [of "ascii ''x''"
        "ascii ''memo_/proj/pkg/a.py::function''" "Path (ascii ''/proj'')" scenario_B "[]"]
    by blast
qed

subsection \<open>Keys of the tree\<close>

lemma dd_modify_keys: "fst ` set (dd_modify d k dflt f) = insert k (fst ` set d)"
  by (induction d k dflt f rule: dd_modify.induct) auto

lemma group_entry_keys_mono: "fst ` set tree \<subseteq> fst ` set (group_entry tree km)"
  by (auto simp: group_entry_def Let_def dd_modify_keys split: option.splits)

lemma foldl_group_entry_keys_mono: "fst ` set tree \<subseteq> fst ` set (foldl group_entry tree kms)"
proof (induction kms arbitrary: tree)
  case Nil
  show ?case by simp
next
  case (Cons km kms)
  show ?case using group_entry_keys_mono [of tree km] Cons.IH [of "group_entry tree km"] by auto
qed

lemma group_entry_survivor:
  assumes "survives key memo"
  shows "key_path key \<in> fst ` set (group_entry tree (key, memo))"
  using assms
  by (auto simp: survives_def key_path_def group_entry_def strip_empty_iff_blank dd_modify_keys
      split: option.splits)

lemma render_fails:
  "(p, c) \<in> set items \<Longrightarrow> \<not> is_relative_to (Path p) cwd \<Longrightarrow> render cwd lines items = Inl PathError"
proof (induction items arbitrary: lines)
  case Nil
  then show ?case by simp
next
  case (Cons item items)
  obtain q d where item: "item = (q, d)" by (cases item)
  show ?case
  proof (cases "is_relative_to (Path q) cwd")
    case True
    with Cons.prems item have "(p, c) \<in> set items" by auto
    from Cons.IH [OF this Cons.prems(2)] True item show ?thesis
      by (simp add: relative_to_def)
  next
    case False
    with item show ?thesis by (simp add: relative_to_def)
  qed
qed

text \<open>
  Claim C4. If the annotation map holds an entry that survives the first loop (its text is
  not blank, its key has the prefix and at least three segments, and its scope is file,
  function, class, or method with its parent) and whose stored path is not relative to the
  working directory, then \<open>format_memo_data\<close> fails with the PathError and returns no
  report, whatever else the map holds.
\<close>

theorem path_outside_cwd_aborts:
  assumes "(key, memo) \<in> set memo_data" and "survives key memo"
    and "\<not> is_relative_to (Path (key_path key)) cwd"
  shows "format_memo_data cwd memo_data = Inl PathError"
proof -
  from assms(1) obtain before after where md: "memo_data = before @ (key, memo) # after"
    by (auto dest: split_list)
  define tree where "tree = foldl group_entry [] memo_data"
  have "key_path key \<in> fst ` set (group_entry (foldl group_entry [] before) (key, memo))"
    by (rule group_entry_survivor [OF assms(2)])
  then have "key_path key \<in> fst ` set tree"
    using foldl_group_entry_keys_mono [of "group_entry (foldl group_entry [] before) (key, memo)" after]
    by (auto simp: tree_def md)
  then obtain c where "(key_path key, c) \<in> set (sort_key fst tree)"
    by auto
  from render_fails [OF this assms(3)] show ?thesis
    by (simp add: format_memo_data_def tree_def)
qed

text \<open>
  Scenario B with one more function memo, for a file outside \<open>/proj\<close>: no report at all.
\<close>

theorem path_outside_cwd_aborts_witness:
  "(ascii ''memo_/other/b.py::function::foo'', ascii ''x'')
     \<in> set (scenario_B @ [(ascii ''memo_/other/b.py::function::foo'', ascii ''x'')])
   \<and> survives (ascii ''memo_/other/b.py::function::foo'') (ascii ''x'')
   \<and> \<not> is_relative_to (Path (key_path (ascii ''memo_/other/b.py::function::foo'')))
         (Path (ascii ''/proj''))
   \<and> format_memo_data (Path (ascii ''/proj''))
         (scenario_B @ [(ascii ''memo_/other/b.py::function::foo'', ascii ''x'')])
       = Inl PathError"
proof -
  have h1: "(ascii ''memo_/other/b.py::function::foo'', ascii ''x'')
     \<in> set (scenario_B @ [(ascii ''memo_/other/b.py::function::foo'', ascii ''x'')])"
    by simp
  have h2: "survives (ascii ''memo_/other/b.py::function::foo'') (ascii ''x'')"
    by code_simp
  have h3: "\<not> is_relative_to (Path (key_path (ascii ''memo_/other/b.py::function::foo'')))
         (Path (ascii ''/proj''))"
    by code_simp
  show ?thesis
    using h1 h2 h3 path_outside_cwd_aborts [OF h1 h2 h3] by blast
qed

section \<open>Properties of the UI keys\<close>

lemma pick_key_fresh: "pick_key used base key draws = Some (k, rest) \<Longrightarrow> k \<notin> used"
  by (induction draws arbitrary: key) (auto split: if_splits)

lemma pick_key_returns:
  "key \<notin> used \<or> (\<exists>u \<in> set draws. base @ ascii ''_'' @ u \<notin> used)
   \<Longrightarrow> \<exists>k rest. pick_key used base key draws = Some (k, rest)"
  by (induction draws arbitrary: key) auto

text \<open>
  A call returns as soon as its base key, or a candidate made from one of the draws, is
  not in use.
\<close>

lemma make_safe_key_returns:
  assumes "base = ascii ''memo_''
             @ str_join (ascii ''_'') (map (\<lambda>a. replace_char 32 95 (replace_char 47 95 a)) args)"
    and "base \<notin> used_keys st \<or> (\<exists>u \<in> set (uuid_draws st). base @ ascii ''_'' @ u \<notin> used_keys st)"
  shows "\<exists>k st'. make_safe_key st args = Some (k, st')"
proof -
  from pick_key_returns [OF assms(2)] obtain k rest where
    "pick_key (used_keys st) base base (uuid_draws st) = Some (k, rest)"
    by blast
  with assms(1) show ?thesis
    by (simp add: make_safe_key_def)
qed

lemma make_safe_key_Some:
  "make_safe_key st args = Some (k, st') \<Longrightarrow> k \<notin> used_keys st \<and> used_keys st' = insert k (used_keys st)"
  by (auto simp: make_safe_key_def Let_def split: option.splits dest: pick_key_fresh)

text \<open>
  Claim C9. For any sequence of calls of \<open>make_safe_key\<close> on one registry, each of which
  returns: no two calls return the same key, no returned key was in the registry before
  its call (so each is absent when it is chosen), and the registry after the calls is the
  registry before them together with the keys returned, so every returned key is
  registered and the registry only grows.
\<close>

theorem ui_keys_unique:
  assumes "make_safe_keys st argss = Some (keys, st')"
  shows "distinct keys \<and> set keys \<inter> used_keys st = {} \<and> used_keys st' = used_keys st \<union> set keys"
  using assms
proof (induction argss arbitrary: st keys st')
  case Nil
  then show ?case by simp
next
  case (Cons args rest)
  from Cons.prems obtain k st1 ks where
    first: "make_safe_key st args = Some (k, st1)" and
    others: "make_safe_keys st1 rest = Some (ks, st')" and keys: "keys = k # ks"
    by (auto split: option.splits)
  from make_safe_key_Some [OF first] have k: "k \<notin> used_keys st" "used_keys st1 = insert k (used_keys st)"
    by simp_all
  from Cons.IH [OF others] have
    "distinct ks" "set ks \<inter> used_keys st1 = {}" "used_keys st' = used_keys st1 \<union> set ks"
    by simp_all
  with k keys show ?case by auto
qed

text \<open>
  Two calls with the same arguments in one process: the second finds its base key taken
  and returns the base with the suffix drawn.
\<close>

theorem ui_keys_unique_witness:
  "make_safe_keys start_state
     [[ascii ''pkg/a.py'', ascii ''function'', ascii ''foo''],
      [ascii ''pkg/a.py'', ascii ''function'', ascii ''foo'']]
   = Some ([ascii ''memo_pkg_a.py_function_foo'', ascii ''memo_pkg_a.py_function_foo_0a1b2c3d''],
           \<lparr> used_keys = {ascii ''memo_pkg_a.py_function_foo'',
                          ascii ''memo_pkg_a.py_function_foo_0a1b2c3d''},
             uuid_draws = [] \<rparr>)
   \<and> distinct [ascii ''memo_pkg_a.py_function_foo'', ascii ''memo_pkg_a.py_function_foo_0a1b2c3d'']
   \<and> set [ascii ''memo_pkg_a.py_function_foo'', ascii ''memo_pkg_a.py_function_foo_0a1b2c3d'']
       \<inter> used_keys start_state = {}"
proof -
  have h: "make_safe_keys start_state
     [[ascii ''pkg/a.py'', ascii ''function'', ascii ''foo''],
      [ascii ''pkg/a.py'', ascii ''function'', ascii ''foo'']]
   = Some ([ascii ''memo_pkg_a.py_function_foo'', ascii ''memo_pkg_a.py_function_foo_0a1b2c3d''],
           \<lparr> used_keys = {ascii ''memo_pkg_a.py_function_foo'',
                          ascii ''memo_pkg_a.py_function_foo_0a1b2c3d''},
             uuid_draws = [] \<rparr>)"
    by code_simp
  from ui_keys_unique [OF h] h show ?thesis by blast
qed

section \<open>Properties of the structure extractor\<close>

subsection \<open>Dictionaries with defaults\<close>

lemma map_of_dd_modify:
  "map_of (dd_modify d k dflt f) =
     (map_of d)(k \<mapsto> f (case map_of d k of None \<Rightarrow> dflt | Some v \<Rightarrow> v))"
  by (induction d k dflt f rule: dd_modify.induct) (auto simp: fun_eq_iff)

lemma dict_get_dd_modify:
  "dict_get (dd_modify d k dflt f) c dflt' =
     (if c = k then f (dict_get d k dflt) else dict_get d c dflt')"
  by (simp add: dict_get_def map_of_dd_modify)

lemma dd_modify_distinct: "distinct (map fst d) \<Longrightarrow> distinct (map fst (dd_modify d k dflt f))"
proof (induction d k dflt f rule: dd_modify.induct)
  case (1 k dflt f)
  show ?case by simp
next
  case (2 k' v d k dflt f)
  then show ?case
    using dd_modify_keys [of d k dflt f] by (auto simp: image_iff)
qed

subsection \<open>The two loops\<close>

lemma direct_functions_Nil: "direct_functions [] = []"
  by (simp add: direct_functions_def)

lemma direct_functions_snoc:
  "direct_functions (body @ [sub]) =
     direct_functions body @ (case sub of FunctionDef n b \<Rightarrow> [n] | _ \<Rightarrow> [])"
  by (simp add: direct_functions_def)

lemma methods_of_snoc:
  "methods_of (tree @ [node]) c =
     methods_of tree c @ (case node of
                            ClassDef n body \<Rightarrow> if n = c then direct_functions body else []
                          | _ \<Rightarrow> [])"
  by (simp add: methods_of_def)

lemma visit_member_simps:
  "visit_member cname cls (FunctionDef mname b) = dd_modify cls cname [] (\<lambda>ms. ms @ [mname])"
  "visit_member cname cls (AsyncFunctionDef n b) = cls"
  "visit_member cname cls (ClassDef n b) = cls"
  "visit_member cname cls (Other b) = cls"
  by (simp_all add: visit_member_def)

lemma visit_node_simps:
  "visit_node st (ClassDef cname body) = st \<lparr> classes := foldl (visit_member cname) (classes st) body \<rparr>"
  "visit_node st (FunctionDef fname b) = st \<lparr> funcs := funcs st @ [fname] \<rparr>"
  "visit_node st (AsyncFunctionDef n b) = st"
  "visit_node st (Other b) = st"
  by (simp_all add: visit_node_def)

lemma visit_member_get:
  "dict_get (foldl (visit_member cname) cls body) c [] =
     dict_get cls c [] @ (if c = cname then direct_functions body else [])"
proof (induction body arbitrary: c rule: rev_induct)
  case Nil
  show ?case by (simp add: direct_functions_Nil)
next
  case (snoc sub body)
  show ?case
    by (cases sub) (simp_all add: snoc.IH visit_member_simps direct_functions_snoc dict_get_dd_modify)
qed

lemma visit_member_keyed: "keyed cls \<Longrightarrow> keyed (visit_member cname cls sub)"
  by (cases sub)
     (auto simp: keyed_def visit_member_simps dd_modify_keys dd_modify_distinct dict_get_dd_modify)

lemma foldl_visit_member_keyed: "keyed cls \<Longrightarrow> keyed (foldl (visit_member cname) cls body)"
  by (induction body arbitrary: cls) (simp_all add: visit_member_keyed)

lemma visit_node_keyed: "keyed (classes st) \<Longrightarrow> keyed (classes (visit_node st node))"
  by (cases node) (simp_all add: visit_node_simps foldl_visit_member_keyed)

lemma foldl_visit_node_keyed: "keyed (classes st) \<Longrightarrow> keyed (classes (foldl visit_node st tree))"
  by (induction tree arbitrary: st) (simp_all add: visit_node_keyed)

lemma foldl_visit_node_funcs:
  "funcs (foldl visit_node st tree) = funcs st @ direct_functions tree"
proof (induction tree rule: rev_induct)
  case Nil
  show ?case by (simp add: direct_functions_Nil)
next
  case (snoc node tree)
  show ?case
    by (cases node) (simp_all add: snoc.IH visit_node_simps direct_functions_snoc)
qed

lemma foldl_visit_node_classes:
  "dict_get (classes (foldl visit_node st tree)) c [] = dict_get (classes st) c [] @ methods_of tree c"
proof (induction tree rule: rev_induct)
  case Nil
  show ?case by (simp add: methods_of_def)
next
  case (snoc node tree)
  show ?case
    by (cases node) (simp_all add: snoc.IH visit_node_simps methods_of_snoc visit_member_get)
qed

lemma visit_member_shallow: "visit_member cname cls (shallow sub) = visit_member cname cls sub"
  by (cases sub) (simp_all add: visit_member_simps)

lemma foldl_visit_member_shallow:
  "foldl (visit_member cname) cls (map shallow body) = foldl (visit_member cname) cls body"
  by (induction body arbitrary: cls) (simp_all add: visit_member_shallow)

lemma visit_node_two_levels:
  "visit_node st (case node of ClassDef n body \<Rightarrow> ClassDef n (map shallow body) | _ \<Rightarrow> shallow node)
   = visit_node st node"
  by (cases node) (simp_all add: visit_node_simps foldl_visit_member_shallow)

lemma foldl_visit_node_two_levels:
  "foldl visit_node st (two_levels tree) = foldl visit_node st tree"
  by (induction tree arbitrary: st) (simp_all add: two_levels_def visit_node_two_levels)

lemma scenario_A_structure:
  "structure_of scenario_A_tree = \<lparr> classes = [(ascii ''Bar'', [ascii ''m''])], funcs = [ascii ''foo''] \<rparr>"
  by code_simp

text \<open>
  Claim C6. For a file that can be read and whose text parses to the module \<open>tree\<close>,
  \<open>extract_structure\<close> returns the structure of the tree, in which: the functions are the
  names of the function definitions that are direct children of the module, in source
  order; the methods recorded for a class name are the names of the function definitions
  that are direct children of the body of the top-level classes of that name, in source
  order (a class has a key exactly when it has such a method, and no key twice); and
  nothing below these two levels matters, the result being that of the module with the
  bodies of all functions, and of everything nested in a class body, emptied, so that a
  function or class defined inside a function never appears. For the module of scenario A
  the result is \<open>{"classes": {"Bar": ["m"]}, "functions": ["foo"]}\<close>.
\<close>

theorem extractor_outline:
  assumes "read_text env file_path = Some src" and "ast_parse env src = Some tree"
  shows "extract_structure env file_path = Inr (structure_of tree)
     \<and> funcs (structure_of tree) = direct_functions tree
     \<and> dict_get (classes (structure_of tree)) c [] = methods_of tree c
     \<and> (c \<in> fst ` set (classes (structure_of tree)) \<longleftrightarrow> methods_of tree c \<noteq> [])
     \<and> distinct (map fst (classes (structure_of tree)))
     \<and> structure_of (two_levels tree) = structure_of tree
     \<and> structure_of scenario_A_tree
         = \<lparr> classes = [(ascii ''Bar'', [ascii ''m''])], funcs = [ascii ''foo''] \<rparr>"
proof -
  have k: "keyed (classes (structure_of tree))"
    unfolding structure_of_def by (rule foldl_visit_node_keyed) (simp add: keyed_def dict_get_def)
  have g: "dict_get (classes (structure_of tree)) c [] = methods_of tree c"
    using foldl_visit_node_classes [of "\<lparr> classes = [], funcs = [] \<rparr>" tree c]
    by (simp add: structure_of_def dict_get_def)
  from k g have "c \<in> fst ` set (classes (structure_of tree)) \<longleftrightarrow> methods_of tree c \<noteq> []"
    unfolding keyed_def by metis
  moreover from k have "distinct (map fst (classes (structure_of tree)))"
    by (simp add: keyed_def)
  moreover have "funcs (structure_of tree) = direct_functions tree"
    by (simp add: structure_of_def foldl_visit_node_funcs)
  moreover have "structure_of (two_levels tree) = structure_of tree"
    by (simp add: structure_of_def foldl_visit_node_two_levels)
  moreover from assms have "extract_structure env file_path = Inr (structure_of tree)"
    by (simp add: extract_structure_def)
  ultimately show ?thesis using g scenario_A_structure by blast
qed

text \<open>Scenario A through \<open>extract_structure\<close>, for the file \<open>pkg/a.py\<close>.\<close>

theorem extractor_outline_witness:
  "read_text scenario_env (Path (ascii ''pkg/a.py'')) = Some scenario_A_text
   \<and> ast_parse scenario_env scenario_A_text = Some scenario_A_tree
   \<and> extract_structure scenario_env (Path (ascii ''pkg/a.py''))
       = Inr \<lparr> classes = [(ascii ''Bar'', [ascii ''m''])], funcs = [ascii ''foo''] \<rparr>
   \<and> methods_of scenario_A_tree (ascii ''Bar'') = [ascii ''m'']"
proof -
  have h1: "read_text scenario_env (Path (ascii ''pkg/a.py'')) = Some scenario_A_text"
    by code_simp
  have h2: "ast_parse scenario_env scenario_A_text = Some scenario_A_tree"
    by code_simp
  have h3: "methods_of scenario_A_tree (ascii ''Bar'') = [ascii ''m'']"
    by code_simp
  from extractor_outline [OF h1 h2, of "ascii ''Bar''"] h1 h2 h3 show ?thesis by simp
qed

subsection \<open>Asynchronous definitions\<close>

lemma visit_member_async: "is_async sub \<Longrightarrow> visit_member cname cls sub = cls"
  by (cases sub) (simp_all add: visit_member_simps)

lemma visit_node_async: "is_async node \<Longrightarrow> visit_node st node = st"
  by (cases node) (simp_all add: visit_node_simps)

lemma foldl_visit_member_filter:
  "foldl (visit_member cname) cls (filter (\<lambda>sub. \<not> is_async sub) body) = foldl (visit_member cname) cls body"
  by (induction body arbitrary: cls) (simp_all add: visit_member_async)

lemma visit_node_without_async:
  "visit_node st (case node of ClassDef n body \<Rightarrow> ClassDef n (filter (\<lambda>sub. \<not> is_async sub) body) | _ \<Rightarrow> node)
   = visit_node st node"
  by (cases node) (simp_all add: visit_node_simps foldl_visit_member_filter)

lemma foldl_visit_node_without_async:
  "foldl visit_node st (without_async tree) = foldl visit_node st tree"
  by (induction tree arbitrary: st)
     (simp_all add: without_async_def visit_node_without_async visit_node_async)

text \<open>
  Claim C10. A function declared with \<open>async def\<close> at module level or directly in a class
  body never appears in the output of the extractor: the structure of a module is the
  structure of the module without these statements.
\<close>

theorem async_defs_invisible:
  "structure_of (without_async tree) = structure_of tree"
  by (simp add: structure_of_def foldl_visit_node_without_async)

text \<open>
  A module with \<open>async def fetch\<close>, \<open>def foo\<close> and a class \<open>Bar\<close> whose only member is
  \<open>async def run\<close>: the structure holds \<open>foo\<close> alone, and no class.
\<close>

theorem async_defs_invisible_witness:
  "structure_of async_tree = \<lparr> classes = [], funcs = [ascii ''foo''] \<rparr>"
proof -
  have "structure_of (without_async async_tree) = \<lparr> classes = [], funcs = [ascii ''foo''] \<rparr>"
    by code_simp
  with async_defs_invisible [of async_tree] show ?thesis by simp
qed

section \<open>Properties of the project scanner\<close>

lemma relative_to_child: "relative_to (child p rel) p = Inr \<lparr> root = [], tail = rel \<rparr>"
  by (simp add: relative_to_def is_relative_to_def child_def)

lemma scan_file_excluded:
  "excluded exclude_folders py_file \<Longrightarrow> scan_file env project exclude_folders acc py_file = Inr acc"
  by (simp add: scan_file_def)

lemma scan_file_fails:
  "\<not> excluded exclude_folders py_file \<Longrightarrow> extract_structure env py_file = Inl e0 \<Longrightarrow>
   \<exists>e. scan_file env project exclude_folders acc py_file = Inl e"
  by (auto simp: scan_file_def Let_def split: sum.splits)

lemma scan_fails:
  "py_file \<in> set files \<Longrightarrow> \<not> excluded exclude_folders py_file \<Longrightarrow>
   extract_structure env py_file = Inl e0 \<Longrightarrow>
   \<exists>e. scan env project exclude_folders acc files = Inl e"
proof (induction files arbitrary: acc)
  case Nil
  then show ?case by simp
next
  case (Cons f files)
  show ?case
  proof (cases "scan_file env project exclude_folders acc f")
    case (Inl e)
    then show ?thesis by simp
  next
    case (Inr acc')
    with scan_file_fails [OF Cons.prems(2,3), of project acc] have "f \<noteq> py_file"
      by auto
    with Cons.prems have "py_file \<in> set files" by simp
    from Cons.IH [OF this Cons.prems(2,3)] Inr show ?thesis by simp
  qed
qed

lemma extract_structure_error:
  "extract_structure env py_file = Inl e \<Longrightarrow> read_text env py_file \<noteq> None \<Longrightarrow> e = ParseError"
  by (auto simp: extract_structure_def split: option.splits)

lemma scan_file_error:
  "scan_file env project exclude_folders acc py_file = Inl e \<Longrightarrow>
   is_relative_to py_file project \<Longrightarrow> read_text env py_file \<noteq> None \<Longrightarrow> e = ParseError"
  by (auto simp: scan_file_def Let_def relative_to_def extract_structure_def
      split: if_splits sum.splits option.splits)

lemma scan_error:
  "scan env project exclude_folders acc files = Inl e \<Longrightarrow>
   \<forall>f \<in> set files. is_relative_to f project \<and> (\<not> excluded exclude_folders f \<longrightarrow> read_text env f \<noteq> None) \<Longrightarrow>
   e = ParseError"
proof (induction files arbitrary: acc)
  case Nil
  then show ?case by simp
next
  case (Cons f files)
  show ?case
  proof (cases "scan_file env project exclude_folders acc f")
    case (Inl e')
    with Cons.prems(1) have e: "e' = e" by simp
    show ?thesis
    proof (cases "excluded exclude_folders f")
      case True
      with Inl show ?thesis by (simp add: scan_file_excluded)
    next
      case False
      with Cons.prems(2) have "is_relative_to f project" "read_text env f \<noteq> None" by simp_all
      from scan_file_error [OF Inl this] e show ?thesis by simp
    qed
  next
    case (Inr acc')
    with Cons.prems(1) have "scan env project exclude_folders acc' files = Inl e" by simp
    from Cons.IH [OF this] Cons.prems(2) show ?thesis by simp
  qed
qed

lemma py_files_relative: "f \<in> set (py_files env project_path) \<Longrightarrow> is_relative_to f (Path project_path)"
  by (auto simp: py_files_def is_relative_to_def child_def)

text \<open>
  Claim C5. If a file of the enumeration that is not excluded can be read and its text is
  not syntactically valid, then \<open>collect_project_structure\<close> fails and returns no catalog,
  whatever the other files are; and the failure is the ParseError when every file of the
  enumeration that is not excluded can be read.
\<close>

theorem invalid_file_aborts_scan:
  assumes "rel \<in> set (rglob_py env (Path project_path))"
    and "\<not> excluded exclude_folders (child (Path project_path) rel)"
    and "read_text env (child (Path project_path) rel) = Some src"
    and "ast_parse env src = None"
  shows "(\<exists>e. collect_project_structure env project_path exclude_folders = Inl e)
     \<and> ((\<forall>r \<in> set (rglob_py env (Path project_path)).
            \<not> excluded exclude_folders (child (Path project_path) r)
            \<longrightarrow> read_text env (child (Path project_path) r) \<noteq> None)
          \<longrightarrow> collect_project_structure env project_path exclude_folders = Inl ParseError)"
proof -
  from assms(3,4) have bad: "extract_structure env (child (Path project_path) rel) = Inl ParseError"
    by (simp add: extract_structure_def)
  from assms(1) have "child (Path project_path) rel \<in> set (py_files env project_path)"
    by (simp add: py_files_def)
  from scan_fails [OF this assms(2) bad] obtain e where
    e: "collect_project_structure env project_path exclude_folders = Inl e"
    by (auto simp: collect_project_structure_def)
  have "e = ParseError"
    if "\<forall>r \<in> set (rglob_py env (Path project_path)).
            \<not> excluded exclude_folders (child (Path project_path) r)
            \<longrightarrow> read_text env (child (Path project_path) r) \<noteq> None"
  proof (rule scan_error)
    from e show "scan env (Path project_path) exclude_folders [] (py_files env project_path) = Inl e"
      by (simp add: collect_project_structure_def)
    from that show "\<forall>f \<in> set (py_files env project_path).
        is_relative_to f (Path project_path) \<and> (\<not> excluded exclude_folders f \<longrightarrow> read_text env f \<noteq> None)"
      by (auto simp: py_files_relative) (auto simp: py_files_def)
  qed
  with e show ?thesis by auto
qed

text \<open>
  The project of scenario A with nothing excluded: \<open>pkg/a.py\<close> is valid and comes first,
  \<open>tests/broken.py\<close> does not parse, and the scan returns the ParseError and no catalog.
\<close>

theorem invalid_file_aborts_scan_witness:
  "[ascii ''tests'', ascii ''broken.py''] \<in> set (rglob_py scenario_env (Path (ascii ''/proj'')))
   \<and> \<not> excluded [] (child (Path (ascii ''/proj'')) [ascii ''tests'', ascii ''broken.py''])
   \<and> read_text scenario_env (child (Path (ascii ''/proj'')) [ascii ''tests'', ascii ''broken.py''])
       = Some (ascii ''def ('')
   \<and> ast_parse scenario_env (ascii ''def ('') = None
   \<and> collect_project_structure scenario_env (ascii ''/proj'') [] = Inl ParseError"
proof -
  have h1: "[ascii ''tests'', ascii ''broken.py''] \<in> set (rglob_py scenario_env (Path (ascii ''/proj'')))"
    by (simp add: scenario_env_def)
  have h2: "\<not> excluded [] (child (Path (ascii ''/proj'')) [ascii ''tests'', ascii ''broken.py''])"
    by code_simp
  have h3: "read_text scenario_env (child (Path (ascii ''/proj'')) [ascii ''tests'', ascii ''broken.py''])
       = Some (ascii ''def ('')"
    by code_simp
  have h4: "ast_parse scenario_env (ascii ''def ('') = None"
    by code_simp
  have h5: "\<forall>r \<in> set (rglob_py scenario_env (Path (ascii ''/proj''))).
            \<not> excluded [] (child (Path (ascii ''/proj'')) r)
            \<longrightarrow> read_text scenario_env (child (Path (ascii ''/proj'')) r) \<noteq> None"
    by (simp add: scenario_env_def)
  from invalid_file_aborts_scan [OF h1 h2 h3 h4] h1 h2 h3 h4 h5 show ?thesis by blast
qed

subsection \<open>Exclusion\<close>

lemma scan_filter_excluded:
  "scan env project exclude_folders acc (filter (\<lambda>f. \<not> excluded exclude_folders f) files)
   = scan env project exclude_folders acc files"
  by (induction files arbitrary: acc) (simp_all add: scan_file_excluded split: sum.splits)

lemma extract_structure_without_excluded:
  "extract_structure (without_excluded ex env) = extract_structure env"
  by (simp add: fun_eq_iff extract_structure_def without_excluded_def split: option.splits)

lemma scan_file_without_excluded:
  "scan_file (without_excluded ex env) = scan_file env"
  by (simp add: fun_eq_iff scan_file_def extract_structure_without_excluded Let_def split: sum.splits)

lemma scan_without_excluded:
  "scan (without_excluded ex env) project exclude_folders acc files
   = scan env project exclude_folders acc files"
  by (induction files arbitrary: acc) (simp_all add: scan_file_without_excluded split: sum.splits)

lemma py_files_without_excluded:
  "py_files (without_excluded ex env) project_path
   = filter (\<lambda>f. \<not> excluded ex f) (py_files env project_path)"
  by (simp add: py_files_def without_excluded_def filter_map comp_def)

lemma dict_set_subset: "set (dict_set d k v) \<subseteq> insert (k, v) (set d)"
  unfolding dict_set_def by (induction d k v "\<lambda>_ :: 'b. v" rule: dd_modify.induct) auto

lemma entries_Cons: "entries ((folder, files) # cat) = map (\<lambda>e. (folder, fst e, fst (snd e), snd (snd e))) files @ entries cat"
  by (simp add: entries_def)

lemma entries_Nil: "entries [] = []"
  by (simp add: entries_def)

lemma entries_add:
  "set (entries (dd_modify cat folder [] (\<lambda>files. dict_set files fname (s, p))))
   \<subseteq> insert (folder, fname, s, p) (set (entries cat))"
proof (induction cat)
  case Nil
  show ?case by (simp add: entries_Cons entries_Nil dict_set_def)
next
  case (Cons ff cat)
  obtain k files where ff: "ff = (k, files)" by (cases ff)
  show ?case
  proof (cases "k = folder")
    case True
    with ff show ?thesis
      using dict_set_subset [of files fname "(s, p)"] by (auto simp: entries_Cons)
  next
    case False
    with ff Cons.IH show ?thesis by (auto simp: entries_Cons)
  qed
qed

lemma scan_file_entries:
  assumes "scan_file env project exclude_folders acc py_file = Inr acc'"
    and "entry \<in> set (entries acc')"
  shows "entry \<in> set (entries acc)
     \<or> (\<not> excluded exclude_folders py_file
        \<and> (\<exists>r s. relative_to py_file project = Inr r \<and> extract_structure env py_file = Inr s
              \<and> entry = (path_str (path_parent r), path_name py_file, s, py_file)))"
proof (cases "excluded exclude_folders py_file")
  case True
  with assms show ?thesis by (simp add: scan_file_excluded)
next
  case False
  with assms(1) obtain r s where r: "relative_to py_file project = Inr r"
    and s: "extract_structure env py_file = Inr s"
    and new: "acc' = dd_modify acc (path_str (path_parent r)) []
                (\<lambda>files. dict_set files (path_name py_file) (s, py_file))"
    by (auto simp: scan_file_def Let_def split: sum.splits)
  from assms(2) entries_add [of acc "path_str (path_parent r)" "path_name py_file" s py_file]
  have "entry \<in> set (entries acc) \<or> entry = (path_str (path_parent r), path_name py_file, s, py_file)"
    unfolding new by auto
  with False r s show ?thesis by auto
qed

lemma scan_entries:
  assumes "scan env project exclude_folders acc files = Inr cat"
    and "entry \<in> set (entries cat)"
  shows "entry \<in> set (entries acc)
     \<or> (\<exists>f \<in> set files. \<not> excluded exclude_folders f
        \<and> (\<exists>r s. relative_to f project = Inr r \<and> extract_structure env f = Inr s
              \<and> entry = (path_str (path_parent r), path_name f, s, f)))"
  using assms
proof (induction files arbitrary: acc)
  case Nil
  then show ?case by simp
next
  case (Cons f files)
  from Cons.prems(1) obtain acc' where
    step: "scan_file env project exclude_folders acc f = Inr acc'" and
    rest: "scan env project exclude_folders acc' files = Inr cat"
    by (auto split: sum.splits)
  from Cons.IH [OF rest Cons.prems(2)] scan_file_entries [OF step, of entry]
  show ?case by auto
qed

lemma collect_entries:
  assumes "collect_project_structure env project_path exclude_folders = Inr cat"
    and "entry \<in> set (entries cat)"
  shows "\<exists>rel \<in> set (rglob_py env (Path project_path)).
           \<not> excluded exclude_folders (child (Path project_path) rel)
           \<and> describes env (Path project_path) rel entry"
proof -
  from scan_entries [OF assms(1) [unfolded collect_project_structure_def] assms(2)]
  obtain f r s where f: "f \<in> set (py_files env project_path)" "\<not> excluded exclude_folders f"
    "relative_to f (Path project_path) = Inr r" "extract_structure env f = Inr s"
    "entry = (path_str (path_parent r), path_name f, s, f)"
    by (auto simp: entries_Nil)
  from f(1) obtain rel where rel: "rel \<in> set (rglob_py env (Path project_path))"
    "f = child (Path project_path) rel"
    by (auto simp: py_files_def)
  from f(3) rel(2) have "r = \<lparr> root = [], tail = rel \<rparr>"
    by (simp add: relative_to_child)
  with f rel show ?thesis
    by (auto simp: describes_def)
qed

text \<open>
  Claim C7. The files with an excluded name among the parts of their path, at any depth,
  have no part in the result of \<open>collect_project_structure\<close>: the result, catalog or
  error, is the one obtained when these files are not enumerated at all, so they are
  neither parsed nor grouped; and no entry of a catalog returned holds the path of such a
  file.
\<close>

theorem excluded_files_absent:
  "collect_project_structure env project_path exclude_folders
     = collect_project_structure (without_excluded exclude_folders env) project_path exclude_folders
   \<and> (\<forall>cat. collect_project_structure env project_path exclude_folders = Inr cat \<longrightarrow>
        (\<forall>entry \<in> set (entries cat). \<not> excluded exclude_folders (snd (snd (snd entry)))))"
proof -
  have "collect_project_structure env project_path exclude_folders
     = collect_project_structure (without_excluded exclude_folders env) project_path exclude_folders"
    by (simp add: collect_project_structure_def scan_without_excluded py_files_without_excluded
        scan_filter_excluded)
  moreover have "\<not> excluded exclude_folders (snd (snd (snd entry)))"
    if "collect_project_structure env project_path exclude_folders = Inr cat"
      "entry \<in> set (entries cat)" for cat entry
    using collect_entries [OF that] by (auto simp: describes_def)
  ultimately show ?thesis by blast
qed

text \<open>
  The project of scenario A with \<open>tests\<close> excluded: the file that does not parse is
  skipped, and the catalog holds \<open>pkg/a.py\<close> alone.
\<close>

theorem excluded_files_absent_witness:
  "collect_project_structure scenario_env (ascii ''/proj'') [ascii ''tests'']
     = Inr [(ascii ''pkg'',
             [(ascii ''a.py'',
               (\<lparr> classes = [(ascii ''Bar'', [ascii ''m''])], funcs = [ascii ''foo''] \<rparr>,
                Path (ascii ''/proj/pkg/a.py'')))])]
   \<and> collect_project_structure (without_excluded [ascii ''tests''] scenario_env) (ascii ''/proj'')
         [ascii ''tests'']
       = collect_project_structure scenario_env (ascii ''/proj'') [ascii ''tests'']
   \<and> excluded [ascii ''tests''] (Path (ascii ''/proj/tests/broken.py''))
   \<and> \<not> excluded [ascii ''tests''] (Path (ascii ''/proj/pkg/a.py''))"
proof -
  have h1: "collect_project_structure scenario_env (ascii ''/proj'') [ascii ''tests'']
     = Inr [(ascii ''pkg'',
             [(ascii ''a.py'',
               (\<lparr> classes = [(ascii ''Bar'', [ascii ''m''])], funcs = [ascii ''foo''] \<rparr>,
                Path (ascii ''/proj/pkg/a.py'')))])]"
    by code_simp
  have h2: "(ascii ''pkg'', ascii ''a.py'',
             \<lparr> classes = [(ascii ''Bar'', [ascii ''m''])], funcs = [ascii ''foo''] \<rparr>,
             Path (ascii ''/proj/pkg/a.py''))
            \<in> set (entries [(ascii ''pkg'',
             [(ascii ''a.py'',
               (\<lparr> classes = [(ascii ''Bar'', [ascii ''m''])], funcs = [ascii ''foo''] \<rparr>,
                Path (ascii ''/proj/pkg/a.py'')))])])"
    by (simp add: entries_def)
  have h3: "excluded [ascii ''tests''] (Path (ascii ''/proj/tests/broken.py''))"
    by code_simp
  from excluded_files_absent [of scenario_env "ascii ''/proj''" "[ascii ''tests'']"] h1 h2 h3
  show ?thesis by fastforce
qed

subsection \<open>Shape of the entries\<close>

text \<open>
  Claim C8, as amended. Every entry of a catalog that \<open>collect_project_structure\<close>
  returns belongs to a file of the enumeration that is not excluded: it is filed under the
  folder of that file relative to the project path and under its file name, its first
  component is the structure that \<open>extract_structure\<close> returns for the file, and its second
  component is the path of the file as enumerated, that is the project path as given
  extended by the components of the file below it. That path is absolute exactly when the
  project path is given as an absolute path.
\<close>

theorem catalog_entry_shape:
  assumes "collect_project_structure env project_path exclude_folders = Inr cat"
    and "entry \<in> set (entries cat)"
  shows "(\<exists>rel \<in> set (rglob_py env (Path project_path)).
           \<not> excluded exclude_folders (child (Path project_path) rel)
           \<and> describes env (Path project_path) rel entry)
     \<and> (is_absolute (snd (snd (snd entry))) \<longleftrightarrow> is_absolute (Path project_path))"
proof -
  from collect_entries [OF assms] obtain rel where
    rel: "rel \<in> set (rglob_py env (Path project_path))"
      "\<not> excluded exclude_folders (child (Path project_path) rel)"
      "describes env (Path project_path) rel entry"
    by blast
  from rel(3) have "snd (snd (snd entry)) = child (Path project_path) rel"
    by (auto simp: describes_def)
  then have "is_absolute (snd (snd (snd entry))) \<longleftrightarrow> is_absolute (Path project_path)"
    by (simp add: is_absolute_def child_def)
  with rel show ?thesis by blast
qed

text \<open>The project of scenario A at \<open>/proj\<close>, with \<open>tests\<close> excluded, and its entry.\<close>

theorem catalog_entry_shape_witness:
  "collect_project_structure scenario_env (ascii ''/proj'') [ascii ''tests'']
     = Inr [(ascii ''pkg'',
             [(ascii ''a.py'',
               (\<lparr> classes = [(ascii ''Bar'', [ascii ''m''])], funcs = [ascii ''foo''] \<rparr>,
                Path (ascii ''/proj/pkg/a.py'')))])]
   \<and> (ascii ''pkg'', ascii ''a.py'',
       \<lparr> classes = [(ascii ''Bar'', [ascii ''m''])], funcs = [ascii ''foo''] \<rparr>,
       Path (ascii ''/proj/pkg/a.py''))
      \<in> set (entries [(ascii ''pkg'',
             [(ascii ''a.py'',
               (\<lparr> classes = [(ascii ''Bar'', [ascii ''m''])], funcs = [ascii ''foo''] \<rparr>,
                Path (ascii ''/proj/pkg/a.py'')))])])
   \<and> is_absolute (Path (ascii ''/proj/pkg/a.py''))"
proof -
  have h1: "collect_project_structure scenario_env (ascii ''/proj'') [ascii ''tests'']
     = Inr [(ascii ''pkg'',
             [(ascii ''a.py'',
               (\<lparr> classes = [(ascii ''Bar'', [ascii ''m''])], funcs = [ascii ''foo''] \<rparr>,
                Path (ascii ''/proj/pkg/a.py'')))])]"
    by code_simp
  have h2: "(ascii ''pkg'', ascii ''a.py'',
             \<lparr> classes = [(ascii ''Bar'', [ascii ''m''])], funcs = [ascii ''foo''] \<rparr>,
             Path (ascii ''/proj/pkg/a.py''))
            \<in> set (entries [(ascii ''pkg'',
             [(ascii ''a.py'',
               (\<lparr> classes = [(ascii ''Bar'', [ascii ''m''])], funcs = [ascii ''foo''] \<rparr>,
                Path (ascii ''/proj/pkg/a.py'')))])])"
    by (simp add: entries_def)
  have h3: "is_absolute (Path (ascii ''/proj''))"
    by code_simp
  from catalog_entry_shape [OF h1 h2] h1 h2 h3 show ?thesis by simp
qed

text \<open>
  Claim C8 as the specification states it fails: for the project path \<open>.\<close>, the default
  of the program, the second component of the entry of \<open>pkg/a.py\<close> is the relative path
  \<open>pkg/a.py\<close>, which is not absolute.
\<close>

theorem catalog_entry_shape_counterexample:
  "collect_project_structure scenario_env (ascii ''.'') [ascii ''tests'']
     = Inr [(ascii ''pkg'',
             [(ascii ''a.py'',
               (\<lparr> classes = [(ascii ''Bar'', [ascii ''m''])], funcs = [ascii ''foo''] \<rparr>,
                \<lparr> root = [], tail = [ascii ''pkg'', ascii ''a.py''] \<rparr>))])]
   \<and> \<not> is_absolute \<lparr> root = [], tail = [ascii ''pkg'', ascii ''a.py''] \<rparr>"
  by code_simp

end
